theory Spec2Isabelle
  imports Main "HOL-Library.Word"
begin

unbundle bit_operations_syntax

section \<open>The input manager (openrct2-ui/input/InputManager.cpp)\<close>

subsection \<open>Data\<close>

text \<open>
  \<open>InputDeviceKind\<close>, \<open>InputEventState\<close> and \<open>InputEvent\<close> are declared in
  InputManager.h. The .cpp file names the kinds \<open>Keyboard\<close>, \<open>JoyButton\<close> and
  \<open>JoyHat\<close> and the states \<open>Down\<close> and \<open>Release\<close>; \<open>Mouse\<close> stands for the
  remaining kind of the header. \<open>Modifiers\<close> and \<open>Button\<close> are \<open>uint32_t\<close>.
\<close>

datatype InputDeviceKind = Mouse | Keyboard | JoyButton | JoyHat

datatype InputEventState = Down | Release

record InputEvent =
  DeviceKind :: InputDeviceKind
  Modifiers :: "32 word"
  Button :: "32 word"
  State :: InputEventState

text \<open>
  Of the union \<open>SDL_Event\<close> the code reads the tag \<open>type\<close> (\<open>Uint32\<close>) and the two
  \<open>Uint8\<close> members \<open>jhat.value\<close> and \<open>jbutton.button\<close>.
\<close>

record SDL_Event =
  etype :: "32 word"
  jhat_value :: "8 word"
  jbutton_button :: "8 word"

text \<open>Constants of the SDL2 headers (SDL_events.h, SDL_joystick.h, SDL_keycode.h).\<close>

definition SDL_JOYHATMOTION :: "32 word" where "SDL_JOYHATMOTION = 0x602"
definition SDL_JOYBUTTONDOWN :: "32 word" where "SDL_JOYBUTTONDOWN = 0x603"
definition SDL_JOYBUTTONUP :: "32 word" where "SDL_JOYBUTTONUP = 0x604"
definition SDL_HAT_CENTERED :: "8 word" where "SDL_HAT_CENTERED = 0x00"

definition SDLK_RETURN :: "32 word" where "SDLK_RETURN = 13"
definition SDLK_ESCAPE :: "32 word" where "SDLK_ESCAPE = 27"
definition SDLK_PAGEUP :: "32 word" where "SDLK_PAGEUP = 0x4000004B"
definition SDLK_PAGEDOWN :: "32 word" where "SDLK_PAGEDOWN = 0x4000004E"
definition SDLK_DOWN :: "32 word" where "SDLK_DOWN = 0x40000051"
definition SDLK_UP :: "32 word" where "SDLK_UP = 0x40000052"
definition SDLK_KP_ENTER :: "32 word" where "SDLK_KP_ENTER = 0x40000058"

definition KMOD_SHIFT :: "32 word" where "KMOD_SHIFT = 0x0003"
definition KMOD_CTRL :: "32 word" where "KMOD_CTRL = 0x00C0"
definition KMOD_ALT :: "32 word" where "KMOD_ALT = 0x0300"
definition KMOD_GUI :: "32 word" where "KMOD_GUI = 0x0C00"

text \<open>
  \<open>ConsoleInput\<close> (InGameConsole.h) and \<open>ChatInput\<close> (Chat.h) are scoped enums; their
  enumerator \<open>None\<close> carries the enum's name here.
\<close>

datatype ConsoleInput =
  ConsoleInput_None | LineClear | LineExecute | HistoryPrevious | HistoryNext
  | ScrollPrevious | ScrollNext

datatype ChatInput = ChatInput_None | Send | Close

text \<open>
  Pointers to windows and joysticks: a handle, or \<open>None\<close> for \<open>nullptr\<close>.
\<close>

type_synonym rct_window_ptr = "nat option"
type_synonym SDL_Joystick_ptr = "nat option"

text \<open>\<open>ScreenCoordsXY\<close>: two \<open>int32_t\<close> coordinates, here only compared with 0.\<close>

record ScreenCoordsXY =
  x :: "32 word"
  y :: "32 word"

datatype ShortcutId = SHORTCUT_ID_DEBUG_CONSOLE

text \<open>\<open>InputState\<close> (Input.h): only \<open>Normal\<close> is named by this file.\<close>

datatype InputState = Normal | InputState_other nat

text \<open>\<open>VirtualFloorStyles\<close> (VirtualFloor.h): only \<open>Off\<close> is named by this file.\<close>

datatype VirtualFloorStyles = Off | VirtualFloorStyles_other nat

subsection \<open>Collaborators\<close>

text \<open>
  Every call the input manager makes into code outside this file is recorded, with its
  arguments, in the order it is made.
\<close>

datatype Call =
  ShortcutManager_ProcessEventForSpecificShortcut InputEvent ShortcutId
  | ShortcutManager_ProcessEvent InputEvent
  | InGameConsole_Input ConsoleInput
  | chat_input ChatInput
  | window_text_input_key rct_window_ptr "32 word"
  | window_unfollow_sprite rct_window_ptr
  | InputScrollViewport ScreenCoordsXY
  | GameHandleEdgeScroll
  | virtual_floor_enable
  | virtual_floor_disable

text \<open>
  What the input manager reads from the rest of the program and from SDL: global variables,
  and the results of the query functions it calls.
\<close>

record Globals =
  gScreenFlags :: "8 word"
  InGameConsole_IsOpen :: bool
  gChatOpen :: bool
  gUsingWidgetTextBox :: bool
  window_get_main :: rct_window_ptr
  window_find_by_class :: "8 word \<Rightarrow> rct_window_ptr"
  edge_scrolling :: bool
  virtual_floor_style :: VirtualFloorStyles
  input_get_state :: InputState
  gInputPlaceObjectModifier :: "8 word"
  SDL_GetModState :: "32 word"
  SDL_GetTicks :: "32 word"
  SDL_NumJoysticks :: int
  SDL_JoystickOpen :: "int \<Rightarrow> SDL_Joystick_ptr"

text \<open>
  The parts of the program that this file uses and does not define: the values of the
  constants of OpenRCT2.h, Input.h and Window.h, whether the build is for macOS, what a
  called function does to the globals (\<open>effect\<close>), and what
  \<open>ProcessEventForSpecificShortcut\<close> answers (\<open>shortcut_handled\<close>). The called
  functions do not reach the private members of the input manager.
\<close>

record Host =
  SCREEN_FLAGS_TITLE_DEMO :: "8 word"
  PLACE_OBJECT_MODIFIER_NONE :: "8 word"
  PLACE_OBJECT_MODIFIER_SHIFT_Z :: "8 word"
  PLACE_OBJECT_MODIFIER_COPY_Z :: "8 word"
  WC_TEXTINPUT :: "8 word"
  MACOSX :: bool
  effect :: "Call \<Rightarrow> Globals \<Rightarrow> Globals"
  shortcut_handled :: "InputEvent \<Rightarrow> ShortcutId \<Rightarrow> Globals \<Rightarrow> bool"

record World =
  globals :: Globals
  calls :: "Call list"

definition invoke :: "Host \<Rightarrow> Call \<Rightarrow> World \<Rightarrow> World" where
  "invoke K c w = \<lparr>globals = effect K c (globals w), calls = calls w @ [c]\<rparr>"

text \<open>The calls made between an earlier world and a later one.\<close>

definition emitted :: "World \<Rightarrow> World \<Rightarrow> Call list" where
  "emitted w w' = drop (length (calls w)) (calls w')"

text \<open>The private members of \<open>InputManager\<close> (without their leading underscore).\<close>

record InputManager =
  lastJoystickCheck :: "32 word"
  joysticks :: "nat list"
  events :: "InputEvent list"
  viewScroll :: ScreenCoordsXY

subsection \<open>Queueing\<close>

definition QueueInputEvent :: "InputEvent \<Rightarrow> InputManager \<Rightarrow> InputManager" where
  "QueueInputEvent e m = m\<lparr>events := events m @ [e]\<rparr>"

definition QueueInputEvent_SDL :: "Globals \<Rightarrow> SDL_Event \<Rightarrow> InputManager \<Rightarrow> InputManager" where
  "QueueInputEvent_SDL g e m =
    (if etype e = SDL_JOYHATMOTION then
       (if jhat_value e \<noteq> SDL_HAT_CENTERED then
          QueueInputEvent
            \<lparr>DeviceKind = JoyHat, Modifiers = SDL_GetModState g,
             Button = ucast (jhat_value e), State = Down\<rparr> m
        else m)
     else if etype e = SDL_JOYBUTTONDOWN then
       QueueInputEvent
         \<lparr>DeviceKind = JoyButton, Modifiers = SDL_GetModState g,
          Button = ucast (jbutton_button e), State = Down\<rparr> m
     else if etype e = SDL_JOYBUTTONUP then
       QueueInputEvent
         \<lparr>DeviceKind = JoyButton, Modifiers = SDL_GetModState g,
          Button = ucast (jbutton_button e), State = Release\<rparr> m
     else m)"

subsection \<open>Joystick rescan\<close>

definition CHECK_INTERVAL_MS :: "32 word" where "CHECK_INTERVAL_MS = 5000"

text \<open>
  The loop \<open>for (auto i = 0; i < numJoysticks; i++)\<close>, pushing every joystick that
  opens. \<open>i\<close> stays below \<open>numJoysticks\<close>, an \<open>int\<close>, so \<open>i++\<close> does not overflow.
\<close>

function open_joysticks ::
    "(int \<Rightarrow> SDL_Joystick_ptr) \<Rightarrow> int \<Rightarrow> int \<Rightarrow> nat list \<Rightarrow> nat list" where
  "open_joysticks opn numJoysticks i js =
    (if i < numJoysticks then
       open_joysticks opn numJoysticks (i + 1)
         (case opn i of None \<Rightarrow> js | Some joystick \<Rightarrow> js @ [joystick])
     else js)"
  by pat_completeness auto
termination
  by (relation "measure (\<lambda>(opn, n, i, js). nat (n - i))") auto

declare open_joysticks.simps [simp del]

text \<open>
  \<open>SDL_GetTicks\<close> returns \<open>Uint32\<close>, \<open>CHECK_INTERVAL_MS\<close> is \<open>uint32_t\<close>, and
  \<open>_lastJoystickCheck\<close>, which only ever holds a tick count, is a \<open>uint32_t\<close> member
  (InputManager.h): the sum and the comparison are computed in 32-bit unsigned arithmetic.
\<close>

definition CheckJoysticks :: "Globals \<Rightarrow> InputManager \<Rightarrow> InputManager" where
  "CheckJoysticks g m =
    (let tick = SDL_GetTicks g in
     if tick > lastJoystickCheck m + CHECK_INTERVAL_MS then
       m\<lparr>lastJoystickCheck := tick,
         joysticks := open_joysticks (SDL_JoystickOpen g) (SDL_NumJoysticks g) 0 []\<rparr>
     else m)"

subsection \<open>Modifiers\<close>

definition set_modifier :: "8 word \<Rightarrow> World \<Rightarrow> World" where
  "set_modifier v w = w\<lparr>globals := (globals w)\<lparr>gInputPlaceObjectModifier := v\<rparr>\<rparr>"

definition HandleModifiers :: "Host \<Rightarrow> World \<Rightarrow> World" where
  "HandleModifiers K w =
    (let modifiers = SDL_GetModState (globals w);
         w0 = set_modifier (PLACE_OBJECT_MODIFIER_NONE K) w;
         w1 = (if modifiers AND KMOD_SHIFT \<noteq> 0
               then set_modifier
                 (gInputPlaceObjectModifier (globals w0) OR PLACE_OBJECT_MODIFIER_SHIFT_Z K) w0
               else w0);
         w2 = (if modifiers AND KMOD_CTRL \<noteq> 0
               then set_modifier
                 (gInputPlaceObjectModifier (globals w1) OR PLACE_OBJECT_MODIFIER_COPY_Z K) w1
               else w1);
         w3 = (if modifiers AND KMOD_ALT \<noteq> 0
               then set_modifier (gInputPlaceObjectModifier (globals w2) OR 4) w2
               else w2);
         w4 = (if MACOSX K \<and> modifiers AND KMOD_GUI \<noteq> 0
               then set_modifier (gInputPlaceObjectModifier (globals w3) OR 8) w3
               else w3)
     in if virtual_floor_style (globals w4) \<noteq> Off then
          (if gInputPlaceObjectModifier (globals w4)
                AND (PLACE_OBJECT_MODIFIER_COPY_Z K OR PLACE_OBJECT_MODIFIER_SHIFT_Z K) \<noteq> 0
           then invoke K virtual_floor_enable w4
           else invoke K virtual_floor_disable w4)
        else w4)"

subsection \<open>Console and chat keys\<close>

text \<open>The \<open>switch (e.Button)\<close> of \<open>ProcessInGameConsole\<close>, starting from \<open>None\<close>.\<close>

definition console_input_for :: "32 word \<Rightarrow> ConsoleInput" where
  "console_input_for button =
    (if button = SDLK_ESCAPE then LineClear
     else if button = SDLK_RETURN \<or> button = SDLK_KP_ENTER then LineExecute
     else if button = SDLK_UP then HistoryPrevious
     else if button = SDLK_DOWN then HistoryNext
     else if button = SDLK_PAGEUP then ScrollPrevious
     else if button = SDLK_PAGEDOWN then ScrollNext
     else ConsoleInput_None)"

definition ProcessInGameConsole :: "Host \<Rightarrow> InputEvent \<Rightarrow> World \<Rightarrow> World" where
  "ProcessInGameConsole K e w =
    (if DeviceKind e = Keyboard \<and> State e = Release then
       (let input = console_input_for (Button e)
        in if input \<noteq> ConsoleInput_None then invoke K (InGameConsole_Input input) w else w)
     else w)"

text \<open>The \<open>switch (e.Button)\<close> of \<open>ProcessChat\<close>, starting from \<open>None\<close>.\<close>

definition chat_input_for :: "32 word \<Rightarrow> ChatInput" where
  "chat_input_for button =
    (if button = SDLK_ESCAPE then Close
     else if button = SDLK_RETURN \<or> button = SDLK_KP_ENTER then Send
     else ChatInput_None)"

definition ProcessChat :: "Host \<Rightarrow> InputEvent \<Rightarrow> World \<Rightarrow> World" where
  "ProcessChat K e w =
    (if DeviceKind e = Keyboard \<and> State e = Release then
       (let input = chat_input_for (Button e)
        in if input \<noteq> ChatInput_None then invoke K (chat_input input) w else w)
     else w)"

subsection \<open>Dispatch of one event\<close>

text \<open>
  \<open>Process(const InputEvent&)\<close>. Each \<open>return\<close> of the source is a branch that ends
  without the final call of \<open>shortcutManager.ProcessEvent\<close>.
\<close>

definition Process_InputEvent :: "Host \<Rightarrow> InputEvent \<Rightarrow> World \<Rightarrow> World" where
  "Process_InputEvent K e w =
    (if DeviceKind e = Keyboard then
       (if InGameConsole_IsOpen (globals w) then
          (let handled = shortcut_handled K e SHORTCUT_ID_DEBUG_CONSOLE (globals w);
               w1 = invoke K
                 (ShortcutManager_ProcessEventForSpecificShortcut e SHORTCUT_ID_DEBUG_CONSOLE) w
           in if \<not> handled then ProcessInGameConsole K e w1 else w1)
        else if gChatOpen (globals w) then ProcessChat K e w
        else if DeviceKind e = Keyboard then
          (let wnd = window_find_by_class (globals w) (WC_TEXTINPUT K)
           in if wnd \<noteq> None then
                (if State e = Release then invoke K (window_text_input_key wnd (Button e)) w
                 else w)
              else if gUsingWidgetTextBox (globals w) then w
              else invoke K (ShortcutManager_ProcessEvent e) w)
        else invoke K (ShortcutManager_ProcessEvent e) w)
     else invoke K (ShortcutManager_ProcessEvent e) w)"

subsection \<open>Draining the queue\<close>

text \<open>
  \<open>while (!_events.empty()) { e = _events.front(); Process(e); _events.pop(); }\<close> on
  the pair of the manager's members and the world.
\<close>

function ProcessEvents :: "Host \<Rightarrow> InputManager \<times> World \<Rightarrow> InputManager \<times> World" where
  "ProcessEvents K (m, w) =
    (if events m \<noteq> [] then
       (let e = hd (events m);
            w' = Process_InputEvent K e w
        in ProcessEvents K (m\<lparr>events := tl (events m)\<rparr>, w'))
     else (m, w))"
  by pat_completeness auto
termination
  by (relation "measure (\<lambda>(K, m, w). length (events m))") auto

declare ProcessEvents.simps [simp del]

subsection \<open>View scrolling\<close>

text \<open>
  The condition of the source is \<open>mainWindow != nullptr && _viewScroll.x != 0 ||
  _viewScroll.y != 0\<close>; in C++ \<open>&&\<close> binds tighter than \<open>||\<close>.
\<close>

definition HandleViewScrolling :: "Host \<Rightarrow> InputManager \<Rightarrow> World \<Rightarrow> World" where
  "HandleViewScrolling K m w =
    (if gScreenFlags (globals w) AND SCREEN_FLAGS_TITLE_DEMO K \<noteq> 0 then w
     else if InGameConsole_IsOpen (globals w) then w
     else
       (let mainWindow = window_get_main (globals w);
            w1 = (if (mainWindow \<noteq> None \<and> x (viewScroll m) \<noteq> 0) \<or> y (viewScroll m) \<noteq> 0
                  then invoke K (window_unfollow_sprite mainWindow) w
                  else w);
            w2 = invoke K (InputScrollViewport (viewScroll m)) w1
        in if edge_scrolling (globals w2) then
             (if input_get_state (globals w2) \<noteq> Normal then w2
              else if gInputPlaceObjectModifier (globals w2)
                        AND (PLACE_OBJECT_MODIFIER_SHIFT_Z K OR PLACE_OBJECT_MODIFIER_COPY_Z K) \<noteq> 0
              then w2
              else invoke K GameHandleEdgeScroll w2)
           else w2))"

subsection \<open>One frame tick\<close>

text \<open>\<open>Process()\<close>: the four steps of a tick, in the order of the source.\<close>

definition Process :: "Host \<Rightarrow> InputManager \<times> World \<Rightarrow> InputManager \<times> World" where
  "Process K s =
    (let m1 = CheckJoysticks (globals (snd s)) (fst s);
         w1 = HandleModifiers K (snd s);
         (m2, w2) = ProcessEvents K (m1, w1);
         w3 = HandleViewScrolling K m2 w2
     in (m2, w3))"

section \<open>The ride descriptors (openrct2/ride/coaster/meta/MultiDimensionRollerCoaster.h)\<close>

text \<open>
  \<open>RideTypeDescriptor\<close> is declared in RideData.h; \<open>SET_FIELD(name, value)\<close> initialises
  the member \<open>name\<close>, and the members are listed here in the order of the initialiser.
  The enumerators and macros that the initialisers name (track pieces, flags, ride modes,
  breakdowns, string and sprite ids, colours) are declared in headers outside this file:
  their values are a parameter \<open>H\<close>, from the name of a constant to its value. A braced
  list of numbers is the list of its elements, a function designator is the name of the
  function, \<open>nullptr\<close> is \<open>None\<close>, and \<open>nameof(X)\<close> is the spelling of \<open>X\<close>.
\<close>

record RideTypeDescriptor =
  AlternateType :: nat
  Category :: nat
  EnabledTrackPieces :: "64 word"
  ExtraTrackPieces :: "64 word"
  CoveredTrackPieces :: "64 word"
  StartTrackPiece :: nat
  TrackPaintFunction :: "string option"
  Flags :: "64 word"
  RideModes :: "64 word"
  DefaultMode :: nat
  OperatingSettings :: "int list"
  Naming :: "nat \<times> nat"
  NameConvention :: "nat \<times> nat \<times> nat"
  EnumName :: string
  AvailableBreakdowns :: int
  Heights :: "int list"
  MaxMass :: int
  LiftData :: "nat \<times> int \<times> int"
  RatingsCalculationFunction :: "string option"
  RatingsMultipliers :: "int list"
  UpkeepCosts :: "int list"
  BuildCosts :: "int list"
  DefaultPrices :: "int list"
  DefaultMusic :: nat
  PhotoItem :: nat
  BonusValue :: int
  ColourPresets :: "(nat \<times> nat \<times> nat) list"
  ColourPreview :: "nat \<times> nat"
  ColourKey :: nat

text \<open>\<open>1ULL << n\<close>, a 64-bit value, and \<open>1 << n\<close>, an \<open>int\<close>.\<close>

definition bit_ull :: "nat \<Rightarrow> 64 word" where
  "bit_ull n = push_bit n 1"

definition bit_int :: "nat \<Rightarrow> int" where
  "bit_int n = push_bit n 1"

text \<open>A flag constant of RideData.h, a 64-bit value.\<close>

definition flag :: "(string \<Rightarrow> nat) \<Rightarrow> string \<Rightarrow> 64 word" where
  "flag H name = of_nat (H name)"

definition MultiDimensionRollerCoasterRTD :: "(string \<Rightarrow> nat) \<Rightarrow> RideTypeDescriptor" where
  "MultiDimensionRollerCoasterRTD H =
    \<lparr>AlternateType = H ''RIDE_TYPE_MULTI_DIMENSION_ROLLER_COASTER_ALT'',
     Category = H ''RIDE_CATEGORY_ROLLERCOASTER'',
     EnabledTrackPieces =
       bit_ull (H ''TRACK_STRAIGHT'') OR bit_ull (H ''TRACK_STATION_END'')
       OR bit_ull (H ''TRACK_LIFT_HILL'') OR bit_ull (H ''TRACK_FLAT_ROLL_BANKING'')
       OR bit_ull (H ''TRACK_SLOPE'') OR bit_ull (H ''TRACK_SLOPE_STEEP'')
       OR bit_ull (H ''TRACK_S_BEND'') OR bit_ull (H ''TRACK_CURVE_SMALL'')
       OR bit_ull (H ''TRACK_CURVE'') OR bit_ull (H ''TRACK_HELIX_SMALL'')
       OR bit_ull (H ''TRACK_BRAKES'') OR bit_ull (H ''TRACK_ON_RIDE_PHOTO'')
       OR bit_ull (H ''TRACK_SLOPE_VERTICAL'') OR bit_ull (H ''TRACK_BLOCK_BRAKES'')
       OR bit_ull (H ''TRACK_INLINE_TWIST_UNINVERTED'')
       OR bit_ull (H ''TRACK_QUARTER_LOOP_UNINVERTED''),
     ExtraTrackPieces = 0,
     CoveredTrackPieces = 0,
     StartTrackPiece = H ''TRACK_ELEM_END_STATION'',
     TrackPaintFunction = Some ''get_track_paint_function_multi_dimension_rc'',
     Flags =
       flag H ''RIDE_TYPE_FLAGS_TRACK_HAS_3_COLOURS''
       OR flag H ''RIDE_TYPE_FLAG_HAS_LEAVE_WHEN_ANOTHER_VEHICLE_ARRIVES_AT_STATION''
       OR flag H ''RIDE_TYPE_FLAGS_COMMON_COASTER''
       OR flag H ''RIDE_TYPE_FLAGS_COMMON_COASTER_NON_ALT''
       OR flag H ''RIDE_TYPE_FLAG_HAS_LARGE_CURVES''
       OR flag H ''RIDE_TYPE_FLAG_HAS_ALTERNATIVE_TRACK_TYPE''
       OR flag H ''RIDE_TYPE_FLAG_PEEP_CHECK_GFORCES''
       OR flag H ''RIDE_TYPE_FLAG_ALLOW_MULTIPLE_CIRCUITS'',
     RideModes =
       bit_ull (H ''RIDE_MODE_CONTINUOUS_CIRCUIT'')
       OR bit_ull (H ''RIDE_MODE_CONTINUOUS_CIRCUIT_BLOCK_SECTIONED''),
     DefaultMode = H ''RIDE_MODE_CONTINUOUS_CIRCUIT'',
     OperatingSettings = [10, 27, 30, 25, 25, 0],
     Naming = (H ''STR_RIDE_NAME_MULTI_DIMENSION_ROLLER_COASTER'',
               H ''STR_RIDE_DESCRIPTION_MULTI_DIMENSION_ROLLER_COASTER''),
     NameConvention = (H ''RIDE_COMPONENT_TYPE_TRAIN'', H ''RIDE_COMPONENT_TYPE_TRACK'',
                       H ''RIDE_COMPONENT_TYPE_STATION''),
     EnumName = ''RIDE_TYPE_MULTI_DIMENSION_ROLLER_COASTER'',
     AvailableBreakdowns =
       bit_int (H ''BREAKDOWN_SAFETY_CUT_OUT'')
       OR bit_int (H ''BREAKDOWN_RESTRAINTS_STUCK_CLOSED'')
       OR bit_int (H ''BREAKDOWN_RESTRAINTS_STUCK_OPEN'')
       OR bit_int (H ''BREAKDOWN_VEHICLE_MALFUNCTION'')
       OR bit_int (H ''BREAKDOWN_BRAKES_FAILURE''),
     Heights = [40, 24, 8, 11],
     MaxMass = 78,
     LiftData = (H ''SoundId::LiftFrictionWheels'', 4, 6),
     RatingsCalculationFunction = Some ''ride_ratings_calculate_multi_dimension_roller_coaster'',
     RatingsMultipliers = [50, 30, 10],
     UpkeepCosts = [75, 20, 90, 11, 3, 15],
     BuildCosts = [180, 5, 50],
     DefaultPrices = [20, 20],
     DefaultMusic = H ''MUSIC_STYLE_ROCK_STYLE_3'',
     PhotoItem = H ''SHOP_ITEM_PHOTO2'',
     BonusValue = 100,
     ColourPresets =
       [(H ''COLOUR_BRIGHT_PINK'', H ''COLOUR_YELLOW'', H ''COLOUR_YELLOW''),
        (H ''COLOUR_LIGHT_PURPLE'', H ''COLOUR_BRIGHT_RED'', H ''COLOUR_BRIGHT_RED''),
        (H ''COLOUR_BORDEAUX_RED'', H ''COLOUR_WHITE'', H ''COLOUR_WHITE'')],
     ColourPreview =
       (H ''SPR_RIDE_DESIGN_PREVIEW_MULTI_DIMENSION_ROLLER_COASTER_TRACK'',
        H ''SPR_RIDE_DESIGN_PREVIEW_MULTI_DIMENSION_ROLLER_COASTER_SUPPORTS''),
     ColourKey = H ''RideColourKey::Ride''\<rparr>"

definition MultiDimensionRollerCoasterAltRTD :: "(string \<Rightarrow> nat) \<Rightarrow> RideTypeDescriptor" where
  "MultiDimensionRollerCoasterAltRTD H =
    \<lparr>AlternateType = H ''RIDE_TYPE_NULL'',
     Category = H ''RIDE_CATEGORY_NONE'',
     EnabledTrackPieces =
       bit_ull (H ''TRACK_STRAIGHT'') OR bit_ull (H ''TRACK_FLAT_ROLL_BANKING'')
       OR bit_ull (H ''TRACK_SLOPE'') OR bit_ull (H ''TRACK_SLOPE_STEEP'')
       OR bit_ull (H ''TRACK_S_BEND'') OR bit_ull (H ''TRACK_CURVE_SMALL'')
       OR bit_ull (H ''TRACK_CURVE'') OR bit_ull (H ''TRACK_BRAKES'')
       OR bit_ull (H ''TRACK_ON_RIDE_PHOTO'') OR bit_ull (H ''TRACK_SLOPE_VERTICAL'')
       OR bit_ull (H ''TRACK_BLOCK_BRAKES'') OR bit_ull (H ''TRACK_INLINE_TWIST_INVERTED'')
       OR bit_ull (H ''TRACK_QUARTER_LOOP_INVERTED''),
     ExtraTrackPieces = 0,
     CoveredTrackPieces = 0,
     StartTrackPiece = H ''TRACK_ELEM_END_STATION'',
     TrackPaintFunction = None,
     Flags =
       flag H ''RIDE_TYPE_FLAGS_TRACK_HAS_3_COLOURS''
       OR flag H ''RIDE_TYPE_FLAG_HAS_LEAVE_WHEN_ANOTHER_VEHICLE_ARRIVES_AT_STATION''
       OR flag H ''RIDE_TYPE_FLAGS_COMMON_COASTER''
       OR flag H ''RIDE_TYPE_FLAG_HAS_LARGE_CURVES'',
     RideModes =
       bit_ull (H ''RIDE_MODE_CONTINUOUS_CIRCUIT'')
       OR bit_ull (H ''RIDE_MODE_CONTINUOUS_CIRCUIT_BLOCK_SECTIONED''),
     DefaultMode = H ''RIDE_MODE_CONTINUOUS_CIRCUIT'',
     OperatingSettings = [10, 27, 30, 25, 25, 0],
     Naming = (H ''STR_RIDE_NAME_38'', H ''STR_RIDE_DESCRIPTION_UNKNOWN''),
     NameConvention = (H ''RIDE_COMPONENT_TYPE_TRAIN'', H ''RIDE_COMPONENT_TYPE_TRACK'',
                       H ''RIDE_COMPONENT_TYPE_STATION''),
     EnumName = ''RIDE_TYPE_MULTI_DIMENSION_ROLLER_COASTER_ALT'',
     AvailableBreakdowns =
       bit_int (H ''BREAKDOWN_SAFETY_CUT_OUT'')
       OR bit_int (H ''BREAKDOWN_RESTRAINTS_STUCK_CLOSED'')
       OR bit_int (H ''BREAKDOWN_RESTRAINTS_STUCK_OPEN'')
       OR bit_int (H ''BREAKDOWN_VEHICLE_MALFUNCTION'')
       OR bit_int (H ''BREAKDOWN_BRAKES_FAILURE''),
     Heights = [40, 24, 8, 11],
     MaxMass = 78,
     LiftData = (H ''SoundId::LiftFrictionWheels'', 4, 6),
     RatingsCalculationFunction = Some ''ride_ratings_calculate_multi_dimension_roller_coaster'',
     RatingsMultipliers = [50, 30, 10],
     UpkeepCosts = [75, 20, 90, 11, 3, 15],
     BuildCosts = [180, 5, 50],
     DefaultPrices = [20, 20],
     DefaultMusic = H ''MUSIC_STYLE_ROCK_STYLE_3'',
     PhotoItem = H ''SHOP_ITEM_PHOTO2'',
     BonusValue = 100,
     ColourPresets =
       [(H ''COLOUR_BRIGHT_PINK'', H ''COLOUR_YELLOW'', H ''COLOUR_YELLOW''),
        (H ''COLOUR_LIGHT_PURPLE'', H ''COLOUR_BRIGHT_RED'', H ''COLOUR_BRIGHT_RED''),
        (H ''COLOUR_BORDEAUX_RED'', H ''COLOUR_WHITE'', H ''COLOUR_WHITE'')],
     ColourPreview =
       (H ''SPR_RIDE_DESIGN_PREVIEW_MULTI_DIMENSION_ROLLER_COASTER_TRACK'',
        H ''SPR_RIDE_DESIGN_PREVIEW_MULTI_DIMENSION_ROLLER_COASTER_SUPPORTS''),
     ColourKey = H ''RideColourKey::Ride''\<rparr>"

section \<open>Sample inputs\<close>

text \<open>
  A host whose called functions leave the globals as they are and whose shortcut manager
  declines every event; a quiet set of globals (nothing open, a main window, no text-input
  window, no joystick); an empty trace; a fresh input manager; and a valuation of the
  header constants.
\<close>

definition host0 :: Host where
  "host0 = \<lparr>SCREEN_FLAGS_TITLE_DEMO = 1, PLACE_OBJECT_MODIFIER_NONE = 0,
     PLACE_OBJECT_MODIFIER_SHIFT_Z = 1, PLACE_OBJECT_MODIFIER_COPY_Z = 2, WC_TEXTINPUT = 113,
     MACOSX = False, effect = (\<lambda>c g. g), shortcut_handled = (\<lambda>e i g. False)\<rparr>"

definition globals0 :: Globals where
  "globals0 = \<lparr>gScreenFlags = 0, InGameConsole_IsOpen = False, gChatOpen = False,
     gUsingWidgetTextBox = False, window_get_main = Some 1, window_find_by_class = (\<lambda>c. None),
     edge_scrolling = False, virtual_floor_style = Off, input_get_state = Normal,
     gInputPlaceObjectModifier = 0, SDL_GetModState = 0, SDL_GetTicks = 0,
     SDL_NumJoysticks = 0, SDL_JoystickOpen = (\<lambda>i. None)\<rparr>"

definition world0 :: World where
  "world0 = \<lparr>globals = globals0, calls = []\<rparr>"

definition manager0 :: InputManager where
  "manager0 = \<lparr>lastJoystickCheck = 0, joysticks = [], events = [],
     viewScroll = \<lparr>x = 0, y = 0\<rparr>\<rparr>"

definition headers0 :: "string \<Rightarrow> nat" where
  "headers0 name = length name"

section \<open>Properties of the input manager\<close>

subsection \<open>Auxiliary facts\<close>

lemma events_queue_all:
  "events (foldl (\<lambda>m e. QueueInputEvent e m) m es) = events m @ es"
  by (induction es arbitrary: m) (simp_all add: QueueInputEvent_def)

lemma ProcessEvents_foldl:
  "events m = es \<Longrightarrow>
   ProcessEvents K (m, w) = (m\<lparr>events := []\<rparr>, foldl (\<lambda>w e. Process_InputEvent K e w) w es)"
proof (induction es arbitrary: m w)
  case Nil
  then show ?case by (simp add: ProcessEvents.simps)
next
  case (Cons e es)
  have "ProcessEvents K (m, w)
      = ProcessEvents K (m\<lparr>events := es\<rparr>, Process_InputEvent K e w)"
    using Cons.prems by (subst ProcessEvents.simps) simp
  also have "\<dots> = (m\<lparr>events := es\<rparr>\<lparr>events := []\<rparr>,
      foldl (\<lambda>w e. Process_InputEvent K e w) (Process_InputEvent K e w) es)"
    by (rule Cons.IH) simp
  finally show ?case by simp
qed

lemma events_CheckJoysticks: "events (CheckJoysticks g m) = events m"
  by (simp add: CheckJoysticks_def Let_def)

lemma open_joysticks_eq:
  "open_joysticks opn n i js = js @ List.map_filter opn [i..n - 1]"
proof (induction opn n i js rule: open_joysticks.induct)
  case (1 opn n i js)
  show ?case
  proof (cases "i < n")
    case True
    then have "[i..n - 1] = i # [i + 1..n - 1]"
      by (simp add: upto_rec1)
    with True "1" show ?thesis
      by (subst open_joysticks.simps) (simp split: option.splits)
  next
    case False
    then show ?thesis
      by (subst open_joysticks.simps) simp
  qed
qed

lemma tick_after_interval:
  "(t > l + CHECK_INTERVAL_MS) = (unat t > (unat l + 5000) mod 2 ^ 32)"
  by (simp add: word_less_nat_alt unat_word_ariths CHECK_INTERVAL_MS_def)

text \<open>
  \<open>Process(const InputEvent&)\<close> hands \<open>window_text_input_key\<close> only the window it has
  just checked against \<open>nullptr\<close>.
\<close>

lemma Process_InputEvent_text_input_key_not_null:
  "window_text_input_key None b \<notin> set (emitted w (Process_InputEvent K e w))"
  by (auto simp: Process_InputEvent_def Let_def emitted_def invoke_def
      ProcessInGameConsole_def ProcessChat_def)

subsection \<open>C1: window lookups and the null pointer\<close>

text \<open>
  Claim C1 says that every window lookup is checked against the null pointer before the
  window is used, so that \<open>HandleViewScrolling\<close> never passes a null window to
  \<open>window_unfollow_sprite\<close>. The check of \<open>HandleViewScrolling\<close> guards only the
  horizontal component: with no main window and a view scroll of \<open>(0, 1)\<close>, outside the
  title demo and with the console closed, the first call made is
  \<open>window_unfollow_sprite(nullptr)\<close>.
\<close>

theorem HandleViewScrolling_null_main_window:
  "calls (HandleViewScrolling host0 (manager0\<lparr>viewScroll := \<lparr>x = 0, y = 1\<rparr>\<rparr>)
      (world0\<lparr>globals := globals0\<lparr>window_get_main := None\<rparr>\<rparr>))
   = [window_unfollow_sprite None, InputScrollViewport \<lparr>x = 0, y = 1\<rparr>]"
  by (simp add: HandleViewScrolling_def Let_def invoke_def world0_def globals0_def host0_def
      manager0_def)

subsection \<open>C2: the queue is drained in order\<close>

text \<open>
  Claim C2: whatever events \<open>QueueInputEvent\<close> has appended, one call of
  \<open>ProcessEvents\<close> applies \<open>Process(const InputEvent&)\<close> to each event of the queue
  once, oldest first, and leaves the queue empty. A frame tick (\<open>Process()\<close>) makes that
  call once, between \<open>HandleModifiers\<close> and \<open>HandleViewScrolling\<close>: the world after the
  tick is the world after \<open>HandleModifiers\<close>, with every queued event dispatched once in
  queue order, passed to \<open>HandleViewScrolling\<close>, and the queue is empty.
\<close>

theorem ProcessEvents_drains_fifo:
  "ProcessEvents K (foldl (\<lambda>m e. QueueInputEvent e m) m es, w)
     = ((foldl (\<lambda>m e. QueueInputEvent e m) m es)\<lparr>events := []\<rparr>,
        foldl (\<lambda>w e. Process_InputEvent K e w) w (events m @ es))
   \<and> events (fst (Process K (foldl (\<lambda>m e. QueueInputEvent e m) m es, w))) = []
   \<and> Process K (foldl (\<lambda>m e. QueueInputEvent e m) m es, w)
     = ((CheckJoysticks (globals w) (foldl (\<lambda>m e. QueueInputEvent e m) m es))\<lparr>events := []\<rparr>,
        HandleViewScrolling K
          ((CheckJoysticks (globals w) (foldl (\<lambda>m e. QueueInputEvent e m) m es))\<lparr>events := []\<rparr>)
          (foldl (\<lambda>w e. Process_InputEvent K e w) (HandleModifiers K w) (events m @ es)))"
proof -
  let ?q = "foldl (\<lambda>m e. QueueInputEvent e m) m es"
  have q: "events ?q = events m @ es"
    by (rule events_queue_all)
  have drain: "ProcessEvents K (?q, w)
     = (?q\<lparr>events := []\<rparr>, foldl (\<lambda>w e. Process_InputEvent K e w) w (events m @ es))"
    by (rule ProcessEvents_foldl) (rule q)
  have "events (CheckJoysticks (globals w) ?q) = events m @ es"
    by (simp add: events_CheckJoysticks q)
  then have "ProcessEvents K (CheckJoysticks (globals w) ?q, HandleModifiers K w)
     = ((CheckJoysticks (globals w) ?q)\<lparr>events := []\<rparr>,
        foldl (\<lambda>w e. Process_InputEvent K e w) (HandleModifiers K w) (events m @ es))"
    by (rule ProcessEvents_foldl)
  then have tick: "Process K (?q, w)
     = ((CheckJoysticks (globals w) ?q)\<lparr>events := []\<rparr>,
        HandleViewScrolling K ((CheckJoysticks (globals w) ?q)\<lparr>events := []\<rparr>)
          (foldl (\<lambda>w e. Process_InputEvent K e w) (HandleModifiers K w) (events m @ es)))"
    by (simp add: Process_def Let_def)
  then have "events (fst (Process K (?q, w))) = []"
    by simp
  with drain tick show ?thesis
    by blast
qed

text \<open>
  Two joystick events queued on a fresh manager. \<open>ProcessEvents\<close> shows the shortcut
  manager the button first and the hat second and empties the queue; a whole tick makes
  the same two calls in the same order before it scrolls the viewport.
\<close>

theorem ProcessEvents_drains_fifo_witness:
  "ProcessEvents host0
      (QueueInputEvent \<lparr>DeviceKind = JoyHat, Modifiers = 0, Button = 4, State = Down\<rparr>
        (QueueInputEvent \<lparr>DeviceKind = JoyButton, Modifiers = 0, Button = 2, State = Down\<rparr>
          manager0), world0)
     = (manager0,
        \<lparr>globals = globals0,
         calls = [ShortcutManager_ProcessEvent
                    \<lparr>DeviceKind = JoyButton, Modifiers = 0, Button = 2, State = Down\<rparr>,
                  ShortcutManager_ProcessEvent
                    \<lparr>DeviceKind = JoyHat, Modifiers = 0, Button = 4, State = Down\<rparr>]\<rparr>)
   \<and> Process host0
      (QueueInputEvent \<lparr>DeviceKind = JoyHat, Modifiers = 0, Button = 4, State = Down\<rparr>
        (QueueInputEvent \<lparr>DeviceKind = JoyButton, Modifiers = 0, Button = 2, State = Down\<rparr>
          manager0), world0)
     = (manager0,
        \<lparr>globals = globals0,
         calls = [ShortcutManager_ProcessEvent
                    \<lparr>DeviceKind = JoyButton, Modifiers = 0, Button = 2, State = Down\<rparr>,
                  ShortcutManager_ProcessEvent
                    \<lparr>DeviceKind = JoyHat, Modifiers = 0, Button = 4, State = Down\<rparr>,
                  InputScrollViewport \<lparr>x = 0, y = 0\<rparr>]\<rparr>)"
  using ProcessEvents_drains_fifo
    [of host0 manager0
      "[\<lparr>DeviceKind = JoyButton, Modifiers = 0, Button = 2, State = Down\<rparr>,
        \<lparr>DeviceKind = JoyHat, Modifiers = 0, Button = 4, State = Down\<rparr>]" world0]
  by (simp add: Process_InputEvent_def invoke_def host0_def world0_def manager0_def globals0_def
      QueueInputEvent_def CheckJoysticks_def CHECK_INTERVAL_MS_def HandleModifiers_def
      set_modifier_def HandleViewScrolling_def Let_def)

subsection \<open>C3: routing of one event\<close>

text \<open>
  Claim C3 says that every event goes to exactly one consumer, and that any event other
  than a keyboard event for the console or the chat, if no text-input window captures it,
  reaches the general shortcut dispatch. With the console and the chat closed and no
  window of class \<open>WC_TEXTINPUT\<close>, a keyboard event that arrives while the widget text
  box is in use makes no call at all.
\<close>

theorem Process_InputEvent_widget_text_box_counterexample:
  "DeviceKind \<lparr>DeviceKind = Keyboard, Modifiers = 0, Button = 97, State = Release\<rparr> = Keyboard
   \<and> \<not> InGameConsole_IsOpen (globals (world0\<lparr>globals := globals0\<lparr>gUsingWidgetTextBox := True\<rparr>\<rparr>))
   \<and> \<not> gChatOpen (globals (world0\<lparr>globals := globals0\<lparr>gUsingWidgetTextBox := True\<rparr>\<rparr>))
   \<and> window_find_by_class (globals (world0\<lparr>globals := globals0\<lparr>gUsingWidgetTextBox := True\<rparr>\<rparr>))
        (WC_TEXTINPUT host0) = None
   \<and> emitted (world0\<lparr>globals := globals0\<lparr>gUsingWidgetTextBox := True\<rparr>\<rparr>)
        (Process_InputEvent host0
           \<lparr>DeviceKind = Keyboard, Modifiers = 0, Button = 97, State = Release\<rparr>
           (world0\<lparr>globals := globals0\<lparr>gUsingWidgetTextBox := True\<rparr>\<rparr>)) = []"
  by (simp add: Process_InputEvent_def Let_def emitted_def world0_def globals0_def host0_def)

text \<open>
  Claim C3, amended: \<open>Process(const InputEvent&)\<close> takes exactly one of five routes.
  A keyboard event while the console is open goes to the debug-console shortcut handler
  and, if that declines it, to \<open>ProcessInGameConsole\<close>. A keyboard event while the
  console is closed and the chat is open goes to \<open>ProcessChat\<close>. A keyboard event while
  both are closed and a \<open>WC_TEXTINPUT\<close> window exists goes to \<open>window_text_input_key\<close>
  when its state is \<open>Release\<close> and is dropped otherwise. A keyboard event while both are
  closed, no such window exists and the widget text box is in use is dropped. Every other
  event (not from the keyboard, or from the keyboard with none of the above) goes to the
  general shortcut dispatch, once.
\<close>

theorem Process_InputEvent_routing:
  "(DeviceKind e = Keyboard \<and> InGameConsole_IsOpen (globals w) \<longrightarrow>
      Process_InputEvent K e w =
        (let w1 = invoke K
           (ShortcutManager_ProcessEventForSpecificShortcut e SHORTCUT_ID_DEBUG_CONSOLE) w
         in if shortcut_handled K e SHORTCUT_ID_DEBUG_CONSOLE (globals w) then w1
            else ProcessInGameConsole K e w1))
   \<and> (DeviceKind e = Keyboard \<and> \<not> InGameConsole_IsOpen (globals w) \<and> gChatOpen (globals w) \<longrightarrow>
      Process_InputEvent K e w = ProcessChat K e w)
   \<and> (DeviceKind e = Keyboard \<and> \<not> InGameConsole_IsOpen (globals w) \<and> \<not> gChatOpen (globals w)
       \<and> window_find_by_class (globals w) (WC_TEXTINPUT K) \<noteq> None \<longrightarrow>
      Process_InputEvent K e w =
        (if State e = Release
         then invoke K (window_text_input_key
                (window_find_by_class (globals w) (WC_TEXTINPUT K)) (Button e)) w
         else w))
   \<and> (DeviceKind e = Keyboard \<and> \<not> InGameConsole_IsOpen (globals w) \<and> \<not> gChatOpen (globals w)
       \<and> window_find_by_class (globals w) (WC_TEXTINPUT K) = None
       \<and> gUsingWidgetTextBox (globals w) \<longrightarrow>
      Process_InputEvent K e w = w)
   \<and> (DeviceKind e \<noteq> Keyboard
       \<or> (\<not> InGameConsole_IsOpen (globals w) \<and> \<not> gChatOpen (globals w)
           \<and> window_find_by_class (globals w) (WC_TEXTINPUT K) = None
           \<and> \<not> gUsingWidgetTextBox (globals w)) \<longrightarrow>
      Process_InputEvent K e w = invoke K (ShortcutManager_ProcessEvent e) w)"
  by (auto simp: Process_InputEvent_def Let_def)

text \<open>One event for each route, and a joystick event while the console is open.\<close>

theorem Process_InputEvent_routing_witness:
  "calls (Process_InputEvent host0
      \<lparr>DeviceKind = Keyboard, Modifiers = 0, Button = SDLK_UP, State = Release\<rparr>
      (world0\<lparr>globals := globals0\<lparr>InGameConsole_IsOpen := True, gChatOpen := True\<rparr>\<rparr>))
     = [ShortcutManager_ProcessEventForSpecificShortcut
          \<lparr>DeviceKind = Keyboard, Modifiers = 0, Button = SDLK_UP, State = Release\<rparr>
          SHORTCUT_ID_DEBUG_CONSOLE,
        InGameConsole_Input HistoryPrevious]
   \<and> calls (Process_InputEvent host0
      \<lparr>DeviceKind = Keyboard, Modifiers = 0, Button = SDLK_RETURN, State = Release\<rparr>
      (world0\<lparr>globals := globals0\<lparr>gChatOpen := True\<rparr>\<rparr>))
     = [chat_input Send]
   \<and> calls (Process_InputEvent host0
      \<lparr>DeviceKind = Keyboard, Modifiers = 0, Button = 97, State = Release\<rparr>
      (world0\<lparr>globals := globals0\<lparr>window_find_by_class := (\<lambda>c. Some 7)\<rparr>\<rparr>))
     = [window_text_input_key (Some 7) 97]
   \<and> calls (Process_InputEvent host0
      \<lparr>DeviceKind = Keyboard, Modifiers = 0, Button = 97, State = Release\<rparr>
      (world0\<lparr>globals := globals0\<lparr>gUsingWidgetTextBox := True\<rparr>\<rparr>))
     = []
   \<and> calls (Process_InputEvent host0
      \<lparr>DeviceKind = Keyboard, Modifiers = 0, Button = 97, State = Release\<rparr> world0)
     = [ShortcutManager_ProcessEvent
          \<lparr>DeviceKind = Keyboard, Modifiers = 0, Button = 97, State = Release\<rparr>]
   \<and> calls (Process_InputEvent host0
      \<lparr>DeviceKind = JoyButton, Modifiers = 0, Button = 2, State = Down\<rparr>
      (world0\<lparr>globals := globals0\<lparr>InGameConsole_IsOpen := True\<rparr>\<rparr>))
     = [ShortcutManager_ProcessEvent
          \<lparr>DeviceKind = JoyButton, Modifiers = 0, Button = 2, State = Down\<rparr>]"
  using
    Process_InputEvent_routing
      [of "\<lparr>DeviceKind = Keyboard, Modifiers = 0, Button = SDLK_UP, State = Release\<rparr>"
        "world0\<lparr>globals := globals0\<lparr>InGameConsole_IsOpen := True, gChatOpen := True\<rparr>\<rparr>" host0]
    Process_InputEvent_routing
      [of "\<lparr>DeviceKind = Keyboard, Modifiers = 0, Button = SDLK_RETURN, State = Release\<rparr>"
        "world0\<lparr>globals := globals0\<lparr>gChatOpen := True\<rparr>\<rparr>" host0]
    Process_InputEvent_routing
      [of "\<lparr>DeviceKind = Keyboard, Modifiers = 0, Button = 97, State = Release\<rparr>"
        "world0\<lparr>globals := globals0\<lparr>window_find_by_class := (\<lambda>c. Some 7)\<rparr>\<rparr>" host0]
    Process_InputEvent_routing
      [of "\<lparr>DeviceKind = Keyboard, Modifiers = 0, Button = 97, State = Release\<rparr>"
        "world0\<lparr>globals := globals0\<lparr>gUsingWidgetTextBox := True\<rparr>\<rparr>" host0]
    Process_InputEvent_routing
      [of "\<lparr>DeviceKind = Keyboard, Modifiers = 0, Button = 97, State = Release\<rparr>" world0 host0]
    Process_InputEvent_routing
      [of "\<lparr>DeviceKind = JoyButton, Modifiers = 0, Button = 2, State = Down\<rparr>"
        "world0\<lparr>globals := globals0\<lparr>InGameConsole_IsOpen := True\<rparr>\<rparr>" host0]
  by (simp add: invoke_def world0_def globals0_def host0_def Let_def ProcessInGameConsole_def
      ProcessChat_def console_input_for_def chat_input_for_def SDLK_ESCAPE_def SDLK_RETURN_def
      SDLK_KP_ENTER_def SDLK_UP_def)

subsection \<open>C4: SDL events that are queued\<close>

text \<open>
  Claim C4: \<open>QueueInputEvent(const SDL_Event&)\<close> appends exactly one event for
  \<open>SDL_JOYBUTTONDOWN\<close> (\<open>JoyButton\<close>, \<open>Down\<close>), for \<open>SDL_JOYBUTTONUP\<close>
  (\<open>JoyButton\<close>, \<open>Release\<close>) and for an \<open>SDL_JOYHATMOTION\<close> whose hat value is not
  \<open>SDL_HAT_CENTERED\<close> (\<open>JoyHat\<close>, \<open>Down\<close>); for every other event type and for a
  centred hat it leaves the manager, and so the queue, as it was.
\<close>

theorem QueueInputEvent_SDL_enqueues:
  "(etype e = SDL_JOYBUTTONDOWN \<longrightarrow>
      QueueInputEvent_SDL g e m = m\<lparr>events := events m @
        [\<lparr>DeviceKind = JoyButton, Modifiers = SDL_GetModState g,
          Button = ucast (jbutton_button e), State = Down\<rparr>]\<rparr>)
   \<and> (etype e = SDL_JOYBUTTONUP \<longrightarrow>
      QueueInputEvent_SDL g e m = m\<lparr>events := events m @
        [\<lparr>DeviceKind = JoyButton, Modifiers = SDL_GetModState g,
          Button = ucast (jbutton_button e), State = Release\<rparr>]\<rparr>)
   \<and> (etype e = SDL_JOYHATMOTION \<and> jhat_value e \<noteq> SDL_HAT_CENTERED \<longrightarrow>
      QueueInputEvent_SDL g e m = m\<lparr>events := events m @
        [\<lparr>DeviceKind = JoyHat, Modifiers = SDL_GetModState g,
          Button = ucast (jhat_value e), State = Down\<rparr>]\<rparr>)
   \<and> (etype e \<notin> {SDL_JOYBUTTONDOWN, SDL_JOYBUTTONUP, SDL_JOYHATMOTION}
        \<or> (etype e = SDL_JOYHATMOTION \<and> jhat_value e = SDL_HAT_CENTERED) \<longrightarrow>
      QueueInputEvent_SDL g e m = m)"
  by (auto simp: QueueInputEvent_SDL_def QueueInputEvent_def SDL_JOYHATMOTION_def
      SDL_JOYBUTTONDOWN_def SDL_JOYBUTTONUP_def)

text \<open>
  A button press, a button release, a hat pushed right, a centred hat and a keyboard
  event (\<open>SDL_KEYDOWN\<close>, \<open>0x300\<close>), each on a fresh manager.
\<close>

theorem QueueInputEvent_SDL_enqueues_witness:
  "events (QueueInputEvent_SDL globals0
      \<lparr>etype = SDL_JOYBUTTONDOWN, jhat_value = 0, jbutton_button = 2\<rparr> manager0)
     = [\<lparr>DeviceKind = JoyButton, Modifiers = 0, Button = 2, State = Down\<rparr>]
   \<and> events (QueueInputEvent_SDL globals0
      \<lparr>etype = SDL_JOYBUTTONUP, jhat_value = 0, jbutton_button = 2\<rparr> manager0)
     = [\<lparr>DeviceKind = JoyButton, Modifiers = 0, Button = 2, State = Release\<rparr>]
   \<and> events (QueueInputEvent_SDL globals0
      \<lparr>etype = SDL_JOYHATMOTION, jhat_value = 2, jbutton_button = 0\<rparr> manager0)
     = [\<lparr>DeviceKind = JoyHat, Modifiers = 0, Button = 2, State = Down\<rparr>]
   \<and> events (QueueInputEvent_SDL globals0
      \<lparr>etype = SDL_JOYHATMOTION, jhat_value = SDL_HAT_CENTERED, jbutton_button = 0\<rparr> manager0)
     = []
   \<and> events (QueueInputEvent_SDL globals0
      \<lparr>etype = 0x300, jhat_value = 2, jbutton_button = 2\<rparr> manager0)
     = []"
  using
    QueueInputEvent_SDL_enqueues
      [of "\<lparr>etype = SDL_JOYBUTTONDOWN, jhat_value = 0, jbutton_button = 2\<rparr>" globals0 manager0]
    QueueInputEvent_SDL_enqueues
      [of "\<lparr>etype = SDL_JOYBUTTONUP, jhat_value = 0, jbutton_button = 2\<rparr>" globals0 manager0]
    QueueInputEvent_SDL_enqueues
      [of "\<lparr>etype = SDL_JOYHATMOTION, jhat_value = 2, jbutton_button = 0\<rparr>" globals0 manager0]
    QueueInputEvent_SDL_enqueues
      [of "\<lparr>etype = SDL_JOYHATMOTION, jhat_value = SDL_HAT_CENTERED, jbutton_button = 0\<rparr>"
        globals0 manager0]
    QueueInputEvent_SDL_enqueues
      [of "\<lparr>etype = 0x300, jhat_value = 2, jbutton_button = 2\<rparr>" globals0 manager0]
  by (simp add: SDL_JOYHATMOTION_def SDL_JOYBUTTONDOWN_def SDL_JOYBUTTONUP_def
      SDL_HAT_CENTERED_def globals0_def manager0_def)

subsection \<open>C5: console keys\<close>

text \<open>
  Claim C5: \<open>ProcessInGameConsole\<close> sends the console an input only for a keyboard
  \<open>Release\<close>: ESCAPE gives \<open>LineClear\<close>, RETURN and KP_ENTER give \<open>LineExecute\<close>, UP
  gives \<open>HistoryPrevious\<close>, DOWN gives \<open>HistoryNext\<close>, PAGEUP gives \<open>ScrollPrevious\<close>,
  PAGEDOWN gives \<open>ScrollNext\<close>; any other key, any state other than \<open>Release\<close> and any
  device other than the keyboard give no console input.
\<close>

theorem ProcessInGameConsole_keys:
  "(DeviceKind e = Keyboard \<and> State e = Release \<longrightarrow>
      (Button e = SDLK_ESCAPE \<longrightarrow>
         ProcessInGameConsole K e w = invoke K (InGameConsole_Input LineClear) w)
    \<and> (Button e = SDLK_RETURN \<or> Button e = SDLK_KP_ENTER \<longrightarrow>
         ProcessInGameConsole K e w = invoke K (InGameConsole_Input LineExecute) w)
    \<and> (Button e = SDLK_UP \<longrightarrow>
         ProcessInGameConsole K e w = invoke K (InGameConsole_Input HistoryPrevious) w)
    \<and> (Button e = SDLK_DOWN \<longrightarrow>
         ProcessInGameConsole K e w = invoke K (InGameConsole_Input HistoryNext) w)
    \<and> (Button e = SDLK_PAGEUP \<longrightarrow>
         ProcessInGameConsole K e w = invoke K (InGameConsole_Input ScrollPrevious) w)
    \<and> (Button e = SDLK_PAGEDOWN \<longrightarrow>
         ProcessInGameConsole K e w = invoke K (InGameConsole_Input ScrollNext) w)
    \<and> (Button e \<notin> {SDLK_ESCAPE, SDLK_RETURN, SDLK_KP_ENTER, SDLK_UP, SDLK_DOWN,
                      SDLK_PAGEUP, SDLK_PAGEDOWN} \<longrightarrow>
         ProcessInGameConsole K e w = w))
   \<and> (DeviceKind e \<noteq> Keyboard \<or> State e \<noteq> Release \<longrightarrow> ProcessInGameConsole K e w = w)"
  by (simp add: ProcessInGameConsole_def console_input_for_def SDLK_ESCAPE_def SDLK_RETURN_def
      SDLK_KP_ENTER_def SDLK_UP_def SDLK_DOWN_def SDLK_PAGEUP_def SDLK_PAGEDOWN_def)

theorem ProcessInGameConsole_keys_witness:
  "calls (ProcessInGameConsole host0
      \<lparr>DeviceKind = Keyboard, Modifiers = 0, Button = SDLK_ESCAPE, State = Release\<rparr> world0)
     = [InGameConsole_Input LineClear]
   \<and> calls (ProcessInGameConsole host0
      \<lparr>DeviceKind = Keyboard, Modifiers = 0, Button = SDLK_KP_ENTER, State = Release\<rparr> world0)
     = [InGameConsole_Input LineExecute]
   \<and> calls (ProcessInGameConsole host0
      \<lparr>DeviceKind = Keyboard, Modifiers = 0, Button = SDLK_PAGEDOWN, State = Release\<rparr> world0)
     = [InGameConsole_Input ScrollNext]
   \<and> calls (ProcessInGameConsole host0
      \<lparr>DeviceKind = Keyboard, Modifiers = 0, Button = 97, State = Release\<rparr> world0) = []
   \<and> calls (ProcessInGameConsole host0
      \<lparr>DeviceKind = Keyboard, Modifiers = 0, Button = SDLK_ESCAPE, State = Down\<rparr> world0) = []
   \<and> calls (ProcessInGameConsole host0
      \<lparr>DeviceKind = JoyButton, Modifiers = 0, Button = SDLK_ESCAPE, State = Release\<rparr> world0)
     = []"
  using
    ProcessInGameConsole_keys
      [of "\<lparr>DeviceKind = Keyboard, Modifiers = 0, Button = SDLK_ESCAPE, State = Release\<rparr>"
        host0 world0]
    ProcessInGameConsole_keys
      [of "\<lparr>DeviceKind = Keyboard, Modifiers = 0, Button = SDLK_KP_ENTER, State = Release\<rparr>"
        host0 world0]
    ProcessInGameConsole_keys
      [of "\<lparr>DeviceKind = Keyboard, Modifiers = 0, Button = SDLK_PAGEDOWN, State = Release\<rparr>"
        host0 world0]
    ProcessInGameConsole_keys
      [of "\<lparr>DeviceKind = Keyboard, Modifiers = 0, Button = 97, State = Release\<rparr>"
        host0 world0]
    ProcessInGameConsole_keys
      [of "\<lparr>DeviceKind = Keyboard, Modifiers = 0, Button = SDLK_ESCAPE, State = Down\<rparr>"
        host0 world0]
    ProcessInGameConsole_keys
      [of "\<lparr>DeviceKind = JoyButton, Modifiers = 0, Button = SDLK_ESCAPE, State = Release\<rparr>"
        host0 world0]
  by (simp add: invoke_def world0_def SDLK_ESCAPE_def SDLK_RETURN_def SDLK_KP_ENTER_def
      SDLK_UP_def SDLK_DOWN_def SDLK_PAGEUP_def SDLK_PAGEDOWN_def)

subsection \<open>C6: chat keys\<close>

text \<open>
  Claim C6: \<open>ProcessChat\<close> sends the chat an input only for a keyboard \<open>Release\<close>:
  ESCAPE gives \<open>Close\<close>, RETURN and KP_ENTER give \<open>Send\<close>; any other key, any state
  other than \<open>Release\<close> and any device other than the keyboard give no chat input.
\<close>

theorem ProcessChat_keys:
  "(DeviceKind e = Keyboard \<and> State e = Release \<longrightarrow>
      (Button e = SDLK_ESCAPE \<longrightarrow> ProcessChat K e w = invoke K (chat_input Close) w)
    \<and> (Button e = SDLK_RETURN \<or> Button e = SDLK_KP_ENTER \<longrightarrow>
         ProcessChat K e w = invoke K (chat_input Send) w)
    \<and> (Button e \<notin> {SDLK_ESCAPE, SDLK_RETURN, SDLK_KP_ENTER} \<longrightarrow> ProcessChat K e w = w))
   \<and> (DeviceKind e \<noteq> Keyboard \<or> State e \<noteq> Release \<longrightarrow> ProcessChat K e w = w)"
  by (simp add: ProcessChat_def chat_input_for_def SDLK_ESCAPE_def SDLK_RETURN_def
      SDLK_KP_ENTER_def)

theorem ProcessChat_keys_witness:
  "calls (ProcessChat host0
      \<lparr>DeviceKind = Keyboard, Modifiers = 0, Button = SDLK_ESCAPE, State = Release\<rparr> world0)
     = [chat_input Close]
   \<and> calls (ProcessChat host0
      \<lparr>DeviceKind = Keyboard, Modifiers = 0, Button = SDLK_RETURN, State = Release\<rparr> world0)
     = [chat_input Send]
   \<and> calls (ProcessChat host0
      \<lparr>DeviceKind = Keyboard, Modifiers = 0, Button = SDLK_UP, State = Release\<rparr> world0) = []
   \<and> calls (ProcessChat host0
      \<lparr>DeviceKind = Keyboard, Modifiers = 0, Button = SDLK_RETURN, State = Down\<rparr> world0) = []
   \<and> calls (ProcessChat host0
      \<lparr>DeviceKind = JoyHat, Modifiers = 0, Button = SDLK_RETURN, State = Release\<rparr> world0) = []"
  using
    ProcessChat_keys
      [of "\<lparr>DeviceKind = Keyboard, Modifiers = 0, Button = SDLK_ESCAPE, State = Release\<rparr>"
        host0 world0]
    ProcessChat_keys
      [of "\<lparr>DeviceKind = Keyboard, Modifiers = 0, Button = SDLK_RETURN, State = Release\<rparr>"
        host0 world0]
    ProcessChat_keys
      [of "\<lparr>DeviceKind = Keyboard, Modifiers = 0, Button = SDLK_UP, State = Release\<rparr>"
        host0 world0]
    ProcessChat_keys
      [of "\<lparr>DeviceKind = Keyboard, Modifiers = 0, Button = SDLK_RETURN, State = Down\<rparr>"
        host0 world0]
    ProcessChat_keys
      [of "\<lparr>DeviceKind = JoyHat, Modifiers = 0, Button = SDLK_RETURN, State = Release\<rparr>"
        host0 world0]
  by (simp add: invoke_def world0_def SDLK_ESCAPE_def SDLK_RETURN_def SDLK_KP_ENTER_def
      SDLK_UP_def)

subsection \<open>C8: text input captures the keyboard\<close>

text \<open>
  Claim C8: with the console and the chat closed, a keyboard event makes no call of the
  general shortcut dispatch when a \<open>WC_TEXTINPUT\<close> window exists or the widget text box
  is in use; when the window exists, a \<open>Release\<close> is forwarded to
  \<open>window_text_input_key\<close> with that window and any other keyboard event is dropped.
\<close>

theorem text_input_captures_keyboard:
  "DeviceKind e = Keyboard \<and> \<not> InGameConsole_IsOpen (globals w) \<and> \<not> gChatOpen (globals w) \<longrightarrow>
     (window_find_by_class (globals w) (WC_TEXTINPUT K) \<noteq> None \<or> gUsingWidgetTextBox (globals w) \<longrightarrow>
        (\<forall>e'. ShortcutManager_ProcessEvent e' \<notin> set (emitted w (Process_InputEvent K e w))))
   \<and> (window_find_by_class (globals w) (WC_TEXTINPUT K) \<noteq> None \<and> State e = Release \<longrightarrow>
        Process_InputEvent K e w =
          invoke K (window_text_input_key (window_find_by_class (globals w) (WC_TEXTINPUT K))
            (Button e)) w)
   \<and> (window_find_by_class (globals w) (WC_TEXTINPUT K) \<noteq> None \<and> State e \<noteq> Release \<longrightarrow>
        Process_InputEvent K e w = w)"
  by (auto simp: Process_InputEvent_def Let_def emitted_def invoke_def)

theorem text_input_captures_keyboard_witness:
  "calls (Process_InputEvent host0
      \<lparr>DeviceKind = Keyboard, Modifiers = 0, Button = 97, State = Release\<rparr>
      (world0\<lparr>globals := globals0\<lparr>window_find_by_class := (\<lambda>c. Some 7)\<rparr>\<rparr>))
     = [window_text_input_key (Some 7) 97]
   \<and> calls (Process_InputEvent host0
      \<lparr>DeviceKind = Keyboard, Modifiers = 0, Button = 97, State = Down\<rparr>
      (world0\<lparr>globals := globals0\<lparr>window_find_by_class := (\<lambda>c. Some 7)\<rparr>\<rparr>))
     = []
   \<and> (\<forall>e'. ShortcutManager_ProcessEvent e' \<notin> set (emitted
      (world0\<lparr>globals := globals0\<lparr>gUsingWidgetTextBox := True\<rparr>\<rparr>)
      (Process_InputEvent host0
        \<lparr>DeviceKind = Keyboard, Modifiers = 0, Button = 97, State = Release\<rparr>
        (world0\<lparr>globals := globals0\<lparr>gUsingWidgetTextBox := True\<rparr>\<rparr>))))"
  using
    text_input_captures_keyboard
      [of "\<lparr>DeviceKind = Keyboard, Modifiers = 0, Button = 97, State = Release\<rparr>"
        "world0\<lparr>globals := globals0\<lparr>window_find_by_class := (\<lambda>c. Some 7)\<rparr>\<rparr>" host0]
    text_input_captures_keyboard
      [of "\<lparr>DeviceKind = Keyboard, Modifiers = 0, Button = 97, State = Down\<rparr>"
        "world0\<lparr>globals := globals0\<lparr>window_find_by_class := (\<lambda>c. Some 7)\<rparr>\<rparr>" host0]
    text_input_captures_keyboard
      [of "\<lparr>DeviceKind = Keyboard, Modifiers = 0, Button = 97, State = Release\<rparr>"
        "world0\<lparr>globals := globals0\<lparr>gUsingWidgetTextBox := True\<rparr>\<rparr>" host0]
  by (simp add: invoke_def world0_def globals0_def)

subsection \<open>C9: the joystick rescan\<close>

text \<open>
  Claim C9 says that \<open>CheckJoysticks\<close> leaves the joystick list and the last check time
  unchanged whenever the tick count does not exceed the last check time plus 5000. The
  sum is a 32-bit unsigned sum: with the last check at \<open>0xFFFFFC18\<close> (1000 ms before the
  tick counter wraps) and the tick at \<open>0xFFFFFE0C\<close> (500 ms later), the tick does not
  exceed the last check time plus 5000, and the rescan happens all the same.
\<close>

theorem CheckJoysticks_wrap_counterexample:
  "unat (SDL_GetTicks (globals0\<lparr>SDL_GetTicks := 0xFFFFFE0C\<rparr>))
     \<le> unat (lastJoystickCheck (manager0\<lparr>lastJoystickCheck := 0xFFFFFC18\<rparr>)) + 5000
   \<and> CheckJoysticks (globals0\<lparr>SDL_GetTicks := 0xFFFFFE0C\<rparr>)
         (manager0\<lparr>lastJoystickCheck := 0xFFFFFC18\<rparr>)
       \<noteq> manager0\<lparr>lastJoystickCheck := 0xFFFFFC18\<rparr>"
proof -
  have "lastJoystickCheck (CheckJoysticks (globals0\<lparr>SDL_GetTicks := 0xFFFFFE0C\<rparr>)
         (manager0\<lparr>lastJoystickCheck := 0xFFFFFC18\<rparr>)) = 0xFFFFFE0C"
    by (simp add: CheckJoysticks_def Let_def CHECK_INTERVAL_MS_def word_less_nat_alt)
  moreover have "lastJoystickCheck (manager0\<lparr>lastJoystickCheck := 0xFFFFFC18\<rparr>) \<noteq> 0xFFFFFE0C"
    by simp
  ultimately have "CheckJoysticks (globals0\<lparr>SDL_GetTicks := 0xFFFFFE0C\<rparr>)
         (manager0\<lparr>lastJoystickCheck := 0xFFFFFC18\<rparr>)
       \<noteq> manager0\<lparr>lastJoystickCheck := 0xFFFFFC18\<rparr>"
    by metis
  then show ?thesis by simp
qed

text \<open>
  Claim C9, amended: the threshold is the last check time plus 5000 modulo \<open>2^32\<close>. If
  the tick count does not exceed it, \<open>CheckJoysticks\<close> changes nothing; otherwise the
  last check time becomes the tick count and the list becomes the joysticks that
  \<open>SDL_JoystickOpen\<close> opens, for the indices from 0 up to \<open>SDL_NumJoysticks() - 1\<close> in
  order. As long as the last check time plus 5000 stays below \<open>2^32\<close>, the threshold is
  the plain sum.
\<close>

theorem CheckJoysticks_interval:
  "(unat (SDL_GetTicks g) \<le> (unat (lastJoystickCheck m) + 5000) mod 2 ^ 32 \<longrightarrow>
      CheckJoysticks g m = m)
   \<and> (unat (SDL_GetTicks g) > (unat (lastJoystickCheck m) + 5000) mod 2 ^ 32 \<longrightarrow>
      CheckJoysticks g m =
        m\<lparr>lastJoystickCheck := SDL_GetTicks g,
          joysticks := List.map_filter (SDL_JoystickOpen g) [0..SDL_NumJoysticks g - 1]\<rparr>)
   \<and> (unat (lastJoystickCheck m) + 5000 < 2 ^ 32
        \<and> unat (SDL_GetTicks g) \<le> unat (lastJoystickCheck m) + 5000 \<longrightarrow>
      CheckJoysticks g m = m)"
  by (simp add: CheckJoysticks_def Let_def tick_after_interval open_joysticks_eq)

text \<open>
  At tick 4000 a fresh manager is left alone; at tick 6000, with three joysticks of which
  the second does not open, the two others are listed.
\<close>

theorem CheckJoysticks_interval_witness:
  "CheckJoysticks (globals0\<lparr>SDL_GetTicks := 4000\<rparr>) manager0 = manager0
   \<and> CheckJoysticks
        (globals0\<lparr>SDL_GetTicks := 6000, SDL_NumJoysticks := 3,
           SDL_JoystickOpen := (\<lambda>i. if i = 1 then None else Some (nat i + 10))\<rparr>) manager0
      = manager0\<lparr>lastJoystickCheck := 6000, joysticks := [10, 12]\<rparr>"
proof -
  let ?g = "globals0\<lparr>SDL_GetTicks := 6000, SDL_NumJoysticks := 3,
           SDL_JoystickOpen := (\<lambda>i. if i = 1 then None else Some (nat i + 10))\<rparr>"
  have a: "unat (lastJoystickCheck manager0) + 5000 < 2 ^ 32
      \<and> unat (SDL_GetTicks (globals0\<lparr>SDL_GetTicks := 4000\<rparr>))
          \<le> unat (lastJoystickCheck manager0) + 5000"
    by (simp add: manager0_def)
  have b: "unat (SDL_GetTicks ?g) > (unat (lastJoystickCheck manager0) + 5000) mod 2 ^ 32"
    by (simp add: manager0_def)
  have u: "[0..2] = [0, 1, 2::int]"
    by (simp add: upto_rec1)
  from CheckJoysticks_interval [of "globals0\<lparr>SDL_GetTicks := 4000\<rparr>" manager0] a
  have 1: "CheckJoysticks (globals0\<lparr>SDL_GetTicks := 4000\<rparr>) manager0 = manager0"
    by blast
  from CheckJoysticks_interval [of ?g manager0] b
  have "CheckJoysticks ?g manager0 = manager0\<lparr>lastJoystickCheck := SDL_GetTicks ?g,
          joysticks := List.map_filter (SDL_JoystickOpen ?g) [0..SDL_NumJoysticks ?g - 1]\<rparr>"
    by blast
  then have 2: "CheckJoysticks ?g manager0
      = manager0\<lparr>lastJoystickCheck := 6000, joysticks := [10, 12]\<rparr>"
    by (simp add: u)
  from 1 2 show ?thesis by simp
qed

section \<open>Properties of the ride descriptors\<close>

subsection \<open>C10: the alternate descriptor\<close>

text \<open>
  Claim C10: the alternate descriptor has the same \<open>RideModes\<close>, \<open>DefaultMode\<close>,
  \<open>OperatingSettings\<close>, \<open>AvailableBreakdowns\<close>, \<open>Heights\<close>, \<open>MaxMass\<close>, \<open>LiftData\<close>,
  \<open>RatingsMultipliers\<close>, \<open>UpkeepCosts\<close>, \<open>BuildCosts\<close>, \<open>DefaultPrices\<close>,
  \<open>DefaultMusic\<close>, \<open>PhotoItem\<close>, \<open>BonusValue\<close>, \<open>ColourPresets\<close>, \<open>ColourPreview\<close> and
  \<open>ColourKey\<close> as the main descriptor, and the two differ at most in \<open>AlternateType\<close>,
  \<open>Category\<close>, \<open>EnabledTrackPieces\<close>, \<open>TrackPaintFunction\<close>, \<open>Flags\<close>, \<open>Naming\<close> and
  \<open>EnumName\<close>: the alternate descriptor is the main one with these seven fields replaced.
  Whatever the header constants are, the paint function and the enum name do differ.
\<close>

theorem alt_descriptor_agrees:
  "RideModes (MultiDimensionRollerCoasterAltRTD H) = RideModes (MultiDimensionRollerCoasterRTD H)
   \<and> DefaultMode (MultiDimensionRollerCoasterAltRTD H) = DefaultMode (MultiDimensionRollerCoasterRTD H)
   \<and> OperatingSettings (MultiDimensionRollerCoasterAltRTD H) = OperatingSettings (MultiDimensionRollerCoasterRTD H)
   \<and> AvailableBreakdowns (MultiDimensionRollerCoasterAltRTD H) = AvailableBreakdowns (MultiDimensionRollerCoasterRTD H)
   \<and> Heights (MultiDimensionRollerCoasterAltRTD H) = Heights (MultiDimensionRollerCoasterRTD H)
   \<and> MaxMass (MultiDimensionRollerCoasterAltRTD H) = MaxMass (MultiDimensionRollerCoasterRTD H)
   \<and> LiftData (MultiDimensionRollerCoasterAltRTD H) = LiftData (MultiDimensionRollerCoasterRTD H)
   \<and> RatingsMultipliers (MultiDimensionRollerCoasterAltRTD H) = RatingsMultipliers (MultiDimensionRollerCoasterRTD H)
   \<and> UpkeepCosts (MultiDimensionRollerCoasterAltRTD H) = UpkeepCosts (MultiDimensionRollerCoasterRTD H)
   \<and> BuildCosts (MultiDimensionRollerCoasterAltRTD H) = BuildCosts (MultiDimensionRollerCoasterRTD H)
   \<and> DefaultPrices (MultiDimensionRollerCoasterAltRTD H) = DefaultPrices (MultiDimensionRollerCoasterRTD H)
   \<and> DefaultMusic (MultiDimensionRollerCoasterAltRTD H) = DefaultMusic (MultiDimensionRollerCoasterRTD H)
   \<and> PhotoItem (MultiDimensionRollerCoasterAltRTD H) = PhotoItem (MultiDimensionRollerCoasterRTD H)
   \<and> BonusValue (MultiDimensionRollerCoasterAltRTD H) = BonusValue (MultiDimensionRollerCoasterRTD H)
   \<and> ColourPresets (MultiDimensionRollerCoasterAltRTD H) = ColourPresets (MultiDimensionRollerCoasterRTD H)
   \<and> ColourPreview (MultiDimensionRollerCoasterAltRTD H) = ColourPreview (MultiDimensionRollerCoasterRTD H)
   \<and> ColourKey (MultiDimensionRollerCoasterAltRTD H) = ColourKey (MultiDimensionRollerCoasterRTD H)
   \<and> MultiDimensionRollerCoasterAltRTD H =
       (MultiDimensionRollerCoasterRTD H)
         \<lparr>AlternateType := H ''RIDE_TYPE_NULL'',
          Category := H ''RIDE_CATEGORY_NONE'',
          EnabledTrackPieces := bit_ull (H ''TRACK_STRAIGHT'') OR bit_ull (H ''TRACK_FLAT_ROLL_BANKING'') OR
            bit_ull (H ''TRACK_SLOPE'') OR bit_ull (H ''TRACK_SLOPE_STEEP'') OR bit_ull (H
            ''TRACK_S_BEND'') OR bit_ull (H ''TRACK_CURVE_SMALL'') OR bit_ull (H
            ''TRACK_CURVE'') OR bit_ull (H ''TRACK_BRAKES'') OR bit_ull (H
            ''TRACK_ON_RIDE_PHOTO'') OR bit_ull (H ''TRACK_SLOPE_VERTICAL'') OR bit_ull (H
            ''TRACK_BLOCK_BRAKES'') OR bit_ull (H ''TRACK_INLINE_TWIST_INVERTED'') OR bit_ull
            (H ''TRACK_QUARTER_LOOP_INVERTED''),
          TrackPaintFunction := None,
          Flags := flag H ''RIDE_TYPE_FLAGS_TRACK_HAS_3_COLOURS'' OR flag H
            ''RIDE_TYPE_FLAG_HAS_LEAVE_WHEN_ANOTHER_VEHICLE_ARRIVES_AT_STATION'' OR flag H
            ''RIDE_TYPE_FLAGS_COMMON_COASTER'' OR flag H ''RIDE_TYPE_FLAG_HAS_LARGE_CURVES'',
          Naming := (H ''STR_RIDE_NAME_38'', H ''STR_RIDE_DESCRIPTION_UNKNOWN''),
          EnumName := ''RIDE_TYPE_MULTI_DIMENSION_ROLLER_COASTER_ALT''\<rparr>
   \<and> TrackPaintFunction (MultiDimensionRollerCoasterAltRTD H)
       \<noteq> TrackPaintFunction (MultiDimensionRollerCoasterRTD H)
   \<and> EnumName (MultiDimensionRollerCoasterAltRTD H)
       \<noteq> EnumName (MultiDimensionRollerCoasterRTD H)"
  by (simp add: MultiDimensionRollerCoasterRTD_def MultiDimensionRollerCoasterAltRTD_def)

theorem alt_descriptor_agrees_witness:
  "UpkeepCosts (MultiDimensionRollerCoasterAltRTD headers0)
     = UpkeepCosts (MultiDimensionRollerCoasterRTD headers0)
   \<and> RideModes (MultiDimensionRollerCoasterAltRTD headers0)
     = RideModes (MultiDimensionRollerCoasterRTD headers0)
   \<and> TrackPaintFunction (MultiDimensionRollerCoasterAltRTD headers0) = None"
  using alt_descriptor_agrees [of headers0] by simp

end
